theory Spec2Isabelle
  imports
    Complex_Main
    "HOL-Library.Word"
    "HOL-Library.Char_ord"
    "HOL-Library.List_Lexorder"
    "HOL-Library.AList"
begin

section \<open>The series cache of the export package\<close>

text \<open>
  A shallow embedding of the file that declares \<open>seriesCache\<close> (package \<open>export\<close>):
  the cache of per-series conversion state, the sample interval tracker, the counter
  reset adjuster and the label/resource extractor.

  Conventions.
  \<^item> Go's \<open>int64\<close> and \<open>uint64\<close> are 64-bit words; \<open>int64\<close> is compared with the signed
    orders \<open><s\<close> and \<open>\<le>s\<close>, and \<open>t - 1\<close> wraps as it does in Go.
  \<^item> Go's \<open>float64\<close> is a type parameter \<open>'f\<close> of sort \<open>{ord, minus, zero}\<close>: the code only
    uses \<open><\<close>, \<open>-\<close> and the zero value on it, and these three classes carry no axioms,
    so every theorem below holds for IEEE 754 doubles (NaN included) as well as for the
    reals, at which the concrete runs are evaluated.
  \<^item> A pointer to a cache entry is the key of the entry in the \<open>entries\<close> map; a mutation
    through the pointer is an update of the map at that key. Every entry is allocated by
    \<open>get\<close> for one key, so no two keys share an entry.
  \<^item> The mutex is not modelled: every operation is one atomic step on the cache.
  \<^item> \<open>nil\<close> is \<open>None\<close>; an \<open>error\<close> result is an \<open>error option\<close>.
  \<^item> What the code hands to its logger is appended to the field \<open>logged\<close>.
\<close>

subsection \<open>Data model\<close>

type_synonym int64 = "64 word"
type_synonym uint64 = "64 word"

text \<open>\<open>labels.Label\<close> and \<open>labels.Labels\<close> of the Prometheus label library.\<close>

record Label =
  Name :: string
  Value :: string

type_synonym Labels = "Label list"

text \<open>
  A Go \<open>map[string]string\<close> is an association list with at most one pair per key,
  kept so by \<open>AList.update\<close>; \<open>map_of\<close> reads it.
\<close>

type_synonym strmap = "(string \<times> string) list"

text \<open>\<open>textparse.MetricType\<close> is a string type of the Prometheus text parser.\<close>

type_synonym MetricType = string

definition MetricTypeCounter :: MetricType where "MetricTypeCounter = ''counter''"
definition MetricTypeGauge :: MetricType where "MetricTypeGauge = ''gauge''"
definition MetricTypeHistogram :: MetricType where "MetricTypeHistogram = ''histogram''"
definition MetricTypeGaugeHistogram :: MetricType where "MetricTypeGaugeHistogram = ''gaugehistogram''"
definition MetricTypeSummary :: MetricType where "MetricTypeSummary = ''summary''"
definition MetricTypeInfo :: MetricType where "MetricTypeInfo = ''info''"
definition MetricTypeStateset :: MetricType where "MetricTypeStateset = ''stateset''"
definition MetricTypeUnknown :: MetricType where "MetricTypeUnknown = ''unknown''"

text \<open>\<open>scrape.MetricMetadata\<close>.\<close>

record MetricMetadata =
  md_Metric :: string
  md_Type :: MetricType
  md_Help :: string

text \<open>
  A scrape target is used through \<open>target.Metadata(metric)\<close> only: it is the partial
  function from metric names to the metadata the target exposes.
\<close>

type_synonym Target = "string \<Rightarrow> MetricMetadata option"

text \<open>The enumerations and messages of the monitoring API that the cache fills in.\<close>

datatype MetricKind =
  METRIC_KIND_UNSPECIFIED | MetricDescriptor_GAUGE | MetricDescriptor_DELTA
  | MetricDescriptor_CUMULATIVE

datatype ValueType =
  VALUE_TYPE_UNSPECIFIED | MetricDescriptor_BOOL | MetricDescriptor_INT64
  | MetricDescriptor_DOUBLE | MetricDescriptor_STRING | MetricDescriptor_DISTRIBUTION
  | MetricDescriptor_MONEY

record MonitoredResource =
  res_Type :: string
  res_Labels :: strmap

record Metric =
  met_Type :: string
  met_Labels :: strmap

record TimeSeries =
  ts_Metric :: Metric
  ts_Resource :: "MonitoredResource option"
  ts_MetricKind :: MetricKind
  ts_ValueType :: ValueType

text \<open>
  Modelled from the spec: the type \<open>metricSuffix\<close> and its constants are declared in a
  file of the package that is not among the sources. The spec names the well-known
  suffixes \<open>_sum\<close>, \<open>_count\<close> and none; the code formats a suffix with \<open>%q\<close>, so it is a
  string type, whose zero value is the empty string.
\<close>

type_synonym metricSuffix = string

definition metricSuffixNone :: metricSuffix where "metricSuffixNone = ''''"
definition metricSuffixSum :: metricSuffix where "metricSuffixSum = ''_sum''"
definition metricSuffixCount :: metricSuffix where "metricSuffixCount = ''_count''"

text \<open>
  Modelled from the spec: the names of the monitored-resource labels are constants of the
  package that are not among the sources; the spec lists them as location, cluster,
  namespace, job and instance.
\<close>

definition keyLocation :: string where "keyLocation = ''location''"
definition keyCluster :: string where "keyCluster = ''cluster''"
definition keyNamespace :: string where "keyNamespace = ''namespace''"
definition keyJob :: string where "keyJob = ''job''"
definition keyInstance :: string where "keyInstance = ''instance''"

text \<open>
  The other declarations of the package that the cache uses and that are not among the
  sources are parameters: the label cap, the suffix splitter, the metric type name and
  the three hash primitives.
\<close>

record decls =
  maxLabelCount :: nat
  splitComplexMetricSuffix :: "string \<Rightarrow> string \<times> metricSuffix \<times> bool"
  getMetricType :: "string \<Rightarrow> string \<Rightarrow> string"
  hashNew :: uint64
  hashAdd :: "uint64 \<Rightarrow> string \<Rightarrow> uint64"
  hashAddByte :: "uint64 \<Rightarrow> 8 word \<Rightarrow> uint64"

record sampleInterval =
  si_start :: int64
  si_end :: int64

record 'f seriesCacheEntry =
  lset :: Labels
  metadata :: MetricMetadata
  proto :: "TimeSeries option"
  suffix :: metricSuffix
  hash :: uint64
  nextRefresh :: int64
  hasReset :: bool
  resetValue :: 'f
  resetTimestamp :: int64

text \<open>
  The cache. \<open>getLabelsByRef\<close> and \<open>getExternalLabels\<close> are the two injected functions.
  \<open>getLabelsByRef\<close> returns \<open>nil\<close> for a reference that is no longer valid.
  \<open>getExternalLabels\<close> reads the configuration of the instance, which can be reloaded
  between two calls: the field holds the function as it answers now.
\<close>

record 'f seriesCache =
  metricsPrefix :: string
  entries :: "uint64 \<rightharpoonup> 'f seriesCacheEntry"
  intervals :: "uint64 \<rightharpoonup> sampleInterval"
  getLabelsByRef :: "uint64 \<Rightarrow> Labels option"
  getExternalLabels :: "unit \<Rightarrow> Labels"
  logged :: "string list"

datatype error =
  SeriesReferenceInvalid
  | UnexpectedMetricNameSuffix metricSuffix
  | UnexpectedMetricType MetricType
  | NilPointerDereference

text \<open>
  The clock and the random source, as one call of \<open>get\<close> reads them: the wall clock at
  \<open>shouldRefresh\<close> and at \<open>setNextRefresh\<close> in nanoseconds since the Unix epoch, and the
  jitter that \<open>setNextRefresh\<close> derives from \<open>rand.Float64()\<close>, in nanoseconds.
\<close>

record env =
  clockCheck :: int
  clockSet :: int
  jitter :: int

subsection \<open>Refresh deadline\<close>

definition refreshInterval :: int where
  "refreshInterval = 10 * (60 * 1000000000)"

definition refreshJitter :: int where
  "refreshJitter = 10 * (60 * 1000000000)"

definition Unix :: "int \<Rightarrow> int64" where
  "Unix ns = word_of_int (ns div 1000000000)"

definition valid :: "'f seriesCacheEntry \<Rightarrow> bool" where
  "valid e = (proto e \<noteq> None)"

definition shouldRefresh :: "'f seriesCacheEntry \<Rightarrow> int \<Rightarrow> bool" where
  "shouldRefresh e now = (nextRefresh e <s Unix now)"

definition setNextRefresh :: "'f seriesCacheEntry \<Rightarrow> int \<Rightarrow> int \<Rightarrow> 'f seriesCacheEntry" where
  "setNextRefresh e now j = e\<lparr>nextRefresh := Unix (now + refreshInterval + j)\<rparr>"

text \<open>
  \<open>newSeriesCache\<close> leaves \<open>getLabelsByRef\<close> unset, for the exporter to assign before the
  first lookup; here it starts as the function that knows no reference.
\<close>

definition newSeriesCache :: "string \<Rightarrow> (unit \<Rightarrow> Labels) \<Rightarrow> 'f seriesCache" where
  "newSeriesCache prefix ext =
     \<lparr>metricsPrefix = prefix, entries = Map.empty, intervals = Map.empty,
      getLabelsByRef = (\<lambda>_. None), getExternalLabels = ext, logged = []\<rparr>"

definition logMsg :: "'f seriesCache \<Rightarrow> string \<Rightarrow> 'f seriesCache" where
  "logMsg c msg = c\<lparr>logged := logged c @ [msg]\<rparr>"

subsection \<open>Invalidation and garbage collection\<close>

definition invalidateAll :: "'f seriesCache \<Rightarrow> 'f seriesCache" where
  "invalidateAll c =
     c\<lparr>entries := (\<lambda>ref. map_option (\<lambda>e. e\<lparr>nextRefresh := 0\<rparr>) (entries c ref))\<rparr>"

definition garbageCollect :: "'f seriesCache \<Rightarrow> error option \<times> 'f seriesCache" where
  "garbageCollect c = (None, logMsg c ''garbage collection not implemented yet'')"

text \<open>
  \<open>run\<close> waits for the cancellation of its context or for the next tick of a one-minute
  ticker; the sequence of these events is its input. A failed collection is logged.
\<close>

datatype event = Tick | Done

fun run :: "'f seriesCache \<Rightarrow> event list \<Rightarrow> 'f seriesCache" where
  "run c [] = c"
| "run c (Done # evs) = c"
| "run c (Tick # evs) =
     (case garbageCollect c of
        (Some err, c') \<Rightarrow> run (logMsg c' ''garbage collection failed'') evs
      | (None, c') \<Rightarrow> run c' evs)"

subsection \<open>Sample interval tracker\<close>

definition accepts :: "sampleInterval \<Rightarrow> int64 \<Rightarrow> int64 \<Rightarrow> bool" where
  "accepts si start end' =
     ((start = si_start si \<and> si_end si <s end') \<or> (si_start si <s start \<and> si_end si \<le>s start))"

definition updateSampleInterval ::
  "'f seriesCache \<Rightarrow> uint64 \<Rightarrow> int64 \<Rightarrow> int64 \<Rightarrow> bool \<times> 'f seriesCache" where
  "updateSampleInterval c h start end' =
     (case intervals c h of
        None \<Rightarrow> (True, c\<lparr>intervals := (intervals c)(h \<mapsto> \<lparr>si_start = start, si_end = end'\<rparr>)\<rparr>)
      | Some iv \<Rightarrow>
          if accepts iv start end'
          then (True, c\<lparr>intervals := (intervals c)(h \<mapsto> \<lparr>si_start = start, si_end = end'\<rparr>)\<rparr>)
          else (False, c))"

subsection \<open>Counter reset adjuster\<close>

definition getResetAdjusted ::
  "('f::{ord,minus,zero}) seriesCache \<Rightarrow> uint64 \<Rightarrow> int64 \<Rightarrow> 'f
     \<Rightarrow> (int64 \<times> 'f \<times> bool) \<times> 'f seriesCache" where
  "getResetAdjusted c ref t v =
     (case entries c ref of
        None \<Rightarrow> ((0, 0, False), c)
      | Some e \<Rightarrow>
          if \<not> hasReset e
          then ((0, 0, False),
                c\<lparr>entries := (entries c)(ref \<mapsto> e\<lparr>hasReset := True, resetTimestamp := t, resetValue := v\<rparr>)\<rparr>)
          else
            let e1 = e\<lparr>hasReset := True\<rparr>;
                e2 = (if v < resetValue e1
                      then e1\<lparr>resetValue := 0, resetTimestamp := t - 1\<rparr>
                      else e1)
            in ((resetTimestamp e2, v - resetValue e2, True),
                c\<lparr>entries := (entries c)(ref \<mapsto> e2)\<rparr>))"

subsection \<open>The label library\<close>

text \<open>
  The operations of the Prometheus label library that the cache calls, after the
  library's own code. \<open>Has\<close> and \<open>Get\<close> scan the labels in order; \<open>Map\<close> stores every
  label in turn, so a later label overwrites an earlier one of the same name; \<open>FromMap\<close>
  returns the pairs of a map sorted by name.
\<close>

definition labels_Has :: "Labels \<Rightarrow> string \<Rightarrow> bool" where
  "labels_Has ls n = list_ex (\<lambda>l. Name l = n) ls"

definition labels_Get :: "Labels \<Rightarrow> string \<Rightarrow> string" where
  "labels_Get ls n = (case find (\<lambda>l. Name l = n) ls of None \<Rightarrow> '''' | Some l \<Rightarrow> Value l)"

definition labels_Map :: "Labels \<Rightarrow> strmap" where
  "labels_Map ls = fold (\<lambda>l m. AList.update (Name l) (Value l) m) ls []"

definition labels_FromMap :: "strmap \<Rightarrow> Labels" where
  "labels_FromMap m = sort_key Name (map (\<lambda>(k, v). \<lparr>Name = k, Value = v\<rparr>) m)"

text \<open>
  \<open>labels.Builder\<close>: a base label set, the names to delete and the labels to add.
  \<open>NewBuilder\<close> marks the base labels with an empty value for deletion. \<open>Set\<close> with an
  empty value is \<open>Del\<close>; otherwise it overwrites the first added label of that name or
  appends a new one, so the added labels never repeat a name, and \<open>Del\<close> takes the label
  of the given name out of them. \<open>Labels\<close> returns the base itself when nothing was
  deleted or added, and otherwise the base labels that are neither deleted nor added,
  followed by the added ones, sorted by name.
\<close>

record Builder =
  base :: Labels
  del :: "string list"
  add :: Labels

definition NewBuilder :: "Labels \<Rightarrow> Builder" where
  "NewBuilder ls = \<lparr>base = ls, del = map Name (filter (\<lambda>l. Value l = '''') ls), add = []\<rparr>"

definition Builder_Del :: "Builder \<Rightarrow> string \<Rightarrow> Builder" where
  "Builder_Del b n = b\<lparr>add := filter (\<lambda>a. Name a \<noteq> n) (add b), del := del b @ [n]\<rparr>"

fun setAdd :: "Labels \<Rightarrow> string \<Rightarrow> string \<Rightarrow> Labels" where
  "setAdd [] n v = [\<lparr>Name = n, Value = v\<rparr>]"
| "setAdd (a # as) n v = (if Name a = n then a\<lparr>Value := v\<rparr> # as else a # setAdd as n v)"

definition Builder_Set :: "Builder \<Rightarrow> string \<Rightarrow> string \<Rightarrow> Builder" where
  "Builder_Set b n v = (if v = '''' then Builder_Del b n else b\<lparr>add := setAdd (add b) n v\<rparr>)"

definition Builder_Labels :: "Builder \<Rightarrow> Labels" where
  "Builder_Labels b =
     (if del b = [] \<and> add b = [] then base b
      else sort_key Name
             (filter (\<lambda>l. Name l \<notin> set (del b) \<and> Name l \<notin> set (map Name (add b))) (base b)
              @ add b))"

subsection \<open>Label/resource extractor\<close>

text \<open>
  The external labels are merged into the builder (lines 368 to 375 of the source);
  \<open>extractResource\<close> reads the resource labels off the merged set and deletes them.
\<close>

definition mergeExternal :: "Labels \<Rightarrow> Labels \<Rightarrow> Builder" where
  "mergeExternal ls ext =
     fold (\<lambda>l b. if \<not> labels_Has ls (Name l) then Builder_Set b (Name l) (Value l) else b)
          ext (NewBuilder ls)"

definition extractResource ::
  "'f seriesCache \<Rightarrow> Labels \<Rightarrow> MonitoredResource option \<times> Labels option \<times> bool" where
  "extractResource c ls =
     (if \<not> labels_Has ls keyJob then (None, None, False)
      else if \<not> labels_Has ls keyInstance then (None, None, False)
      else
        let builder = mergeExternal ls (getExternalLabels c ());
            ls' = Builder_Labels builder;
            mres = \<lparr>res_Type = ''prometheus_target'',
                    res_Labels = [(keyLocation, labels_Get ls' keyLocation),
                                  (keyCluster, labels_Get ls' keyCluster),
                                  (keyNamespace, labels_Get ls' keyNamespace),
                                  (keyJob, labels_Get ls' keyJob),
                                  (keyInstance, labels_Get ls' keyInstance)]\<rparr>;
            builder = Builder_Del builder keyLocation;
            builder = Builder_Del builder keyCluster;
            builder = Builder_Del builder keyNamespace;
            builder = Builder_Del builder keyJob;
            builder = Builder_Del builder keyInstance
        in (Some mres, Some (Builder_Labels builder), True))"

text \<open>
  The merge as the spec words it, for stating the extractor's contract: a name has the
  value of the original label set when the original has the name, and otherwise the value
  that the external labels give it. \<open>resourceKeys\<close> lists the names of the resource
  labels.
\<close>

definition specMerged :: "Labels \<Rightarrow> Labels \<Rightarrow> string \<Rightarrow> string" where
  "specMerged ls ext n = (if labels_Has ls n then labels_Get ls n else labels_Get ext n)"

definition resourceKeys :: "string list" where
  "resourceKeys = [keyLocation, keyCluster, keyNamespace, keyJob, keyInstance]"

subsection \<open>Metric metadata\<close>

definition internalMetrics :: "(string \<times> MetricMetadata) list" where
  "internalMetrics =
     [(''up'',
       \<lparr>md_Metric = ''up'', md_Type = MetricTypeGauge,
        md_Help = ''Up indicates whether the last target scrape was successful.''\<rparr>),
      (''scrape_samples_scraped'',
       \<lparr>md_Metric = ''scrape_samples_scraped'', md_Type = MetricTypeGauge,
        md_Help = ''How many samples were scraped during the last successful scrape.''\<rparr>),
      (''scrape_duration_seconds'',
       \<lparr>md_Metric = ''scrape_duration_seconds'', md_Type = MetricTypeGauge,
        md_Help = ''Duration of the last scrape.''\<rparr>),
      (''scrape_samples_post_metric_relabeling'',
       \<lparr>md_Metric = ''scrape_samples_post_metric_relabeling'', md_Type = MetricTypeGauge,
        md_Help = ''How many samples were ingested after relabeling.''\<rparr>),
      (''scrape_series_added'',
       \<lparr>md_Metric = ''scrape_series_added'', md_Type = MetricTypeGauge,
        md_Help = ''Number of new series added in the last scrape.''\<rparr>)]"

definition zeroMetadata :: MetricMetadata where
  "zeroMetadata = \<lparr>md_Metric = '''', md_Type = '''', md_Help = ''''\<rparr>"

definition getMetadata :: "Target \<Rightarrow> string \<Rightarrow> MetricMetadata \<times> bool" where
  "getMetadata target metric =
     (case target metric of
        Some md \<Rightarrow> (md, True)
      | None \<Rightarrow>
          (case map_of internalMetrics metric of
             Some md \<Rightarrow> (md, True)
           | None \<Rightarrow> (zeroMetadata, False)))"

subsection \<open>Series hash\<close>

definition hashLabels :: "decls \<Rightarrow> uint64 \<Rightarrow> Labels \<Rightarrow> uint64" where
  "hashLabels d h ls =
     fold (\<lambda>l h. hashAdd d (hashAddByte d (hashAdd d (hashAddByte d h 255) (Name l)) 255) (Value l))
          ls h"

text \<open>
  The resource of a time series is a pointer; \<open>hashSeries\<close> dereferences it, which
  panics on \<open>nil\<close>.
\<close>

definition hashSeries :: "decls \<Rightarrow> TimeSeries \<Rightarrow> error + uint64" where
  "hashSeries d s =
     (case ts_Resource s of
        None \<Rightarrow> Inl NilPointerDereference
      | Some res \<Rightarrow>
          let h = hashNew d;
              h = hashAdd d h (res_Type res);
              h = hashAddByte d h 255;
              h = hashAdd d h (met_Type (ts_Metric s));
              h = hashLabels d h (labels_FromMap (res_Labels res));
              h = hashAddByte d h 255;
              h = hashLabels d h (labels_FromMap (met_Labels (ts_Metric s)))
          in Inr h)"

subsection \<open>Populating an entry\<close>

text \<open>
  The loop that \<open>populate\<close> runs twice, for \<open>__name__\<close> and for \<open>le\<close>: the first label
  with the given name is cut out of the slice and the loop stops.
\<close>

fun removeLabel :: "string \<Rightarrow> Labels \<Rightarrow> Labels" where
  "removeLabel n [] = []"
| "removeLabel n (l # ls) = (if Name l = n then ls else l # removeLabel n ls)"

text \<open>
  The metadata lookup of \<open>populate\<close> (lines 266 to 278): the full metric name first, then
  the base name that \<open>splitComplexMetricSuffix\<close> returns. The result is the metadata with
  the local variables \<open>baseMetricName\<close> and \<open>suffix\<close>, which keep their zero values
  when the full name is found; \<open>None\<close> is the path that logs and returns \<open>nil\<close>.
\<close>

definition resolveMetadata ::
  "decls \<Rightarrow> Target \<Rightarrow> string \<Rightarrow> (MetricMetadata \<times> string \<times> metricSuffix) option" where
  "resolveMetadata d target metricName =
     (case getMetadata target metricName of
        (md, True) \<Rightarrow> Some (md, '''', '''')
      | (md, False) \<Rightarrow>
          (case splitComplexMetricSuffix d metricName of
             (baseMetricName, sfx, True) \<Rightarrow>
               (case getMetadata target baseMetricName of
                  (md', True) \<Rightarrow> Some (md', baseMetricName, sfx)
                | (md', False) \<Rightarrow> None)
           | (baseMetricName, sfx, False) \<Rightarrow> None))"

text \<open>
  \<open>populate\<close> returns its error, the entry as it leaves it and the cache (whose log it
  may have extended). An early \<open>return nil\<close> leaves the entry as it was. The switch on
  the metric type is the value \<open>r\<close>: the time series with its kind and value type, or
  the error of a \<open>default\<close> branch.
\<close>

definition populate ::
  "decls \<Rightarrow> 'f seriesCache \<Rightarrow> 'f seriesCacheEntry \<Rightarrow> Target
     \<Rightarrow> error option \<times> 'f seriesCacheEntry \<times> 'f seriesCache" where
  "populate d c entry target =
     (case extractResource c (lset entry) of
        (resource, metricLabels0, False) \<Rightarrow> (None, entry, logMsg c ''unknown resource'')
      | (resource, metricLabels0, True) \<Rightarrow>
          let metricLabels = removeLabel ''__name__''
                               (case metricLabels0 of None \<Rightarrow> [] | Some ml \<Rightarrow> ml)
          in
          if maxLabelCount d < length metricLabels
          then (None, entry, logMsg c ''too many labels'')
          else
            let metricName = labels_Get (lset entry) ''__name__'' in
            (case resolveMetadata d target metricName of
               None \<Rightarrow> (None, entry, logMsg c ''metadata not found'')
             | Some (md, baseMetricName, sfx) \<Rightarrow>
                 let metricLabels = (if md_Type md = MetricTypeHistogram
                                     then removeLabel ''le'' metricLabels else metricLabels)
                 in
                 (let ts = \<lparr>ts_Metric = \<lparr>met_Type = getMetricType d (metricsPrefix c) metricName,
                                             met_Labels = labels_Map metricLabels\<rparr>,
                                ts_Resource = resource,
                                ts_MetricKind = METRIC_KIND_UNSPECIFIED,
                                ts_ValueType = VALUE_TYPE_UNSPECIFIED\<rparr>;
                          r = (if md_Type md = MetricTypeCounter
                               then Inr (ts\<lparr>ts_MetricKind := MetricDescriptor_CUMULATIVE,
                                           ts_ValueType := MetricDescriptor_DOUBLE\<rparr>)
                               else if md_Type md = MetricTypeGauge \<or> md_Type md = MetricTypeUnknown
                               then Inr (ts\<lparr>ts_MetricKind := MetricDescriptor_GAUGE,
                                           ts_ValueType := MetricDescriptor_DOUBLE\<rparr>)
                               else if md_Type md = MetricTypeSummary
                               then (if sfx = metricSuffixSum
                                     then Inr (ts\<lparr>ts_MetricKind := MetricDescriptor_CUMULATIVE,
                                                 ts_ValueType := MetricDescriptor_DOUBLE\<rparr>)
                                     else if sfx = metricSuffixCount
                                     then Inr (ts\<lparr>ts_MetricKind := MetricDescriptor_CUMULATIVE,
                                                 ts_ValueType := MetricDescriptor_INT64\<rparr>)
                                     else if sfx = metricSuffixNone
                                     then Inr (ts\<lparr>ts_MetricKind := MetricDescriptor_GAUGE,
                                                 ts_ValueType := MetricDescriptor_DOUBLE\<rparr>)
                                     else Inl (UnexpectedMetricNameSuffix sfx))
                               else if md_Type md = MetricTypeHistogram
                               then Inr (ts\<lparr>ts_Metric := (ts_Metric ts)
                                              \<lparr>met_Type := getMetricType d (metricsPrefix c) baseMetricName\<rparr>,
                                           ts_MetricKind := MetricDescriptor_CUMULATIVE,
                                           ts_ValueType := MetricDescriptor_DISTRIBUTION\<rparr>)
                               else Inl (UnexpectedMetricType (md_Type md)))
                      in
                      (case r of
                         Inl err \<Rightarrow> (Some err, entry, c)
                       | Inr ts' \<Rightarrow>
                           let entry' = entry\<lparr>proto := Some ts', metadata := md, suffix := sfx\<rparr>
                           in (case hashSeries d ts' of
                                 Inl err \<Rightarrow> (Some err, entry', c)
                               | Inr h \<Rightarrow> (None, entry'\<lparr>hash := h\<rparr>, c))))))"

subsection \<open>Cache lookup\<close>

definition newEntry :: "Labels \<Rightarrow> ('f::zero) seriesCacheEntry" where
  "newEntry ls =
     \<lparr>lset = ls, metadata = zeroMetadata, proto = None, suffix = '''', hash = 0,
      nextRefresh = 0, hasReset = False, resetValue = 0, resetTimestamp = 0\<rparr>"

definition get ::
  "decls \<Rightarrow> ('f::zero) seriesCache \<Rightarrow> uint64 \<Rightarrow> Target \<Rightarrow> env
     \<Rightarrow> ('f seriesCacheEntry option \<times> bool \<times> error option) \<times> 'f seriesCache" where
  "get d c ref target ev =
     (case (case entries c ref of
              Some e \<Rightarrow> Some (e, c)
            | None \<Rightarrow>
                (case getLabelsByRef c ref of
                   None \<Rightarrow> None
                 | Some ls \<Rightarrow> Some (newEntry ls, c\<lparr>entries := (entries c)(ref \<mapsto> newEntry ls)\<rparr>)))
      of
        None \<Rightarrow> ((None, False, Some SeriesReferenceInvalid), c)
      | Some (e, c1) \<Rightarrow>
          if shouldRefresh e (clockCheck ev)
          then
            (case populate d c1 e target of
               (Some err, e', c2) \<Rightarrow>
                 ((None, False, Some err), c2\<lparr>entries := (entries c2)(ref \<mapsto> e')\<rparr>)
             | (None, e', c2) \<Rightarrow>
                 let e'' = setNextRefresh e' (clockSet ev) (jitter ev)
                 in ((Some e'', valid e'', None), c2\<lparr>entries := (entries c2)(ref \<mapsto> e'')\<rparr>))
          else ((Some e, valid e, None), c1))"

subsection \<open>Reading the result of a call\<close>

text \<open>
  What a call of \<open>populate\<close> assigned, read off its result: it returned no error and the
  time series of the entry has the given metric kind and value type; and the metric
  labels of that time series.
\<close>

definition classifiedAs ::
  "error option \<times> 'f seriesCacheEntry \<times> 'f seriesCache \<Rightarrow> MetricKind \<Rightarrow> ValueType \<Rightarrow> bool" where
  "classifiedAs r kind vt =
     (fst r = None
      \<and> (case proto (fst (snd r)) of
           None \<Rightarrow> False
         | Some ts \<Rightarrow> ts_MetricKind ts = kind \<and> ts_ValueType ts = vt))"

definition protoLabels :: "error option \<times> 'f seriesCacheEntry \<times> 'f seriesCache \<Rightarrow> strmap" where
  "protoLabels r = (case proto (fst (snd r)) of None \<Rightarrow> [] | Some ts \<Rightarrow> met_Labels (ts_Metric ts))"

section \<open>Example runs\<close>

text \<open>
  Concrete inputs at which the properties below are evaluated. The declarations that are
  parameters get simple stand-ins here: a label cap of 2, a suffix splitter that knows the
  suffixes of one summary and of one histogram, a metric type name that joins prefix and
  name, and an additive hash.
\<close>

definition exampleDecls :: decls where
  "exampleDecls =
     \<lparr>maxLabelCount = 2,
      splitComplexMetricSuffix =
        (\<lambda>name. if name = ''rpc_seconds_sum'' then (''rpc_seconds'', metricSuffixSum, True)
                else if name = ''rpc_seconds_count'' then (''rpc_seconds'', metricSuffixCount, True)
                else if name = ''rpc_latency_bucket'' then (''rpc_latency'', ''_bucket'', True)
                else ('''', metricSuffixNone, False)),
      getMetricType = (\<lambda>prefix name. prefix @ ''/'' @ name),
      hashNew = 0,
      hashAdd = (\<lambda>h s. h + of_nat (length s)),
      hashAddByte = (\<lambda>h b. h + ucast b)\<rparr>"

definition exampleLabels :: Labels where
  "exampleLabels =
     [\<lparr>Name = ''__name__'', Value = ''http_requests_total''\<rparr>,
      \<lparr>Name = ''instance'', Value = ''1:9090''\<rparr>,
      \<lparr>Name = ''job'', Value = ''a''\<rparr>]"

definition ruleLabels :: Labels where
  "ruleLabels = [\<lparr>Name = ''__name__'', Value = ''job:up:sum''\<rparr>, \<lparr>Name = ''job'', Value = ''a''\<rparr>]"

definition exampleTarget :: Target where
  "exampleTarget =
     [''http_requests_total'' \<mapsto>
        \<lparr>md_Metric = ''http_requests_total'', md_Type = MetricTypeCounter,
         md_Help = ''Requests served.''\<rparr>]"

definition upTarget :: Target where
  "upTarget =
     [''up'' \<mapsto> \<lparr>md_Metric = ''up'', md_Type = MetricTypeCounter, md_Help = ''Uptime.''\<rparr>]"

definition emptyCache :: "real seriesCache" where
  "emptyCache = newSeriesCache ''prometheus.googleapis.com'' (\<lambda>_. [])"

definition exampleCache :: "real seriesCache" where
  "exampleCache =
     emptyCache\<lparr>getLabelsByRef := [1 \<mapsto> exampleLabels],
                getExternalLabels := (\<lambda>_. [\<lparr>Name = ''cluster'', Value = ''c1''\<rparr>,
                                            \<lparr>Name = ''job'', Value = ''external''\<rparr>])\<rparr>"

definition exampleEnv :: env where
  "exampleEnv =
     \<lparr>clockCheck = 1600000000000000000, clockSet = 1600000000000000001, jitter = 5000000000\<rparr>"

definition laterEnv :: env where
  "laterEnv =
     \<lparr>clockCheck = 1600000060000000000, clockSet = 1600000060000000001, jitter = - 7000000000\<rparr>"

text \<open>The interval scenario of the spec for one hash, and a degenerate first interval.\<close>

definition intervalCache1 :: "real seriesCache" where
  "intervalCache1 = snd (updateSampleInterval emptyCache 7 0 10)"

definition intervalCache2 :: "real seriesCache" where
  "intervalCache2 = snd (updateSampleInterval intervalCache1 7 0 20)"

definition pointCache :: "real seriesCache" where
  "pointCache = snd (updateSampleInterval emptyCache 7 10 10)"

text \<open>The counter scenario of the spec: samples \<open>(100, 5)\<close>, \<open>(110, 8)\<close> and \<open>(120, 2)\<close>.\<close>

definition counterCache0 :: "real seriesCache" where
  "counterCache0 = emptyCache\<lparr>entries := [1 \<mapsto> newEntry exampleLabels]\<rparr>"

definition counterCache1 :: "real seriesCache" where
  "counterCache1 = snd (getResetAdjusted counterCache0 1 100 5)"

definition counterCache2 :: "real seriesCache" where
  "counterCache2 = snd (getResetAdjusted counterCache1 1 110 8)"

text \<open>A first lookup of series 1, which populates its entry.\<close>

definition firstGet ::
  "(real seriesCacheEntry option \<times> bool \<times> error option) \<times> real seriesCache" where
  "firstGet = get exampleDecls exampleCache 1 exampleTarget exampleEnv"

definition firstEntry :: "real seriesCacheEntry" where
  "firstEntry = (case fst (fst firstGet) of Some e \<Rightarrow> e | None \<Rightarrow> newEntry [])"

definition listedCache :: "real seriesCache" where
  "listedCache = exampleCache\<lparr>entries := (entries exampleCache)(1 \<mapsto> newEntry exampleLabels)\<rparr>"

definition firstPopulate :: "error option \<times> real seriesCacheEntry \<times> real seriesCache" where
  "firstPopulate = populate exampleDecls listedCache (newEntry exampleLabels) exampleTarget"







text \<open>A histogram bucket series and a series of a metric type the cache does not convert.\<close>

definition bucketLabels :: Labels where
  "bucketLabels =
     [\<lparr>Name = ''__name__'', Value = ''rpc_latency_bucket''\<rparr>,
      \<lparr>Name = ''instance'', Value = ''1:9090''\<rparr>,
      \<lparr>Name = ''job'', Value = ''a''\<rparr>,
      \<lparr>Name = ''le'', Value = ''0.5''\<rparr>,
      \<lparr>Name = ''method'', Value = ''GET''\<rparr>]"

definition infoLabels :: Labels where
  "infoLabels =
     [\<lparr>Name = ''__name__'', Value = ''build_info''\<rparr>,
      \<lparr>Name = ''instance'', Value = ''1:9090''\<rparr>,
      \<lparr>Name = ''job'', Value = ''a''\<rparr>]"

definition richTarget :: Target where
  "richTarget =
     [''rpc_latency'' \<mapsto>
        \<lparr>md_Metric = ''rpc_latency'', md_Type = MetricTypeHistogram, md_Help = ''Latency.''\<rparr>,
      ''build_info'' \<mapsto>
        \<lparr>md_Metric = ''build_info'', md_Type = MetricTypeInfo, md_Help = ''Build.''\<rparr>]"

section \<open>Properties\<close>

subsection \<open>Frame lemmas\<close>

lemma populate_frame:
  "populate d c e target = (err, e', c') \<Longrightarrow> entries c' = entries c \<and> intervals c' = intervals c"
  by (auto simp: populate_def logMsg_def Let_def
           split: prod.splits bool.splits if_splits option.splits sum.splits)

lemma get_stored:
  assumes "get d c ref target ev = ((Some e, v, err), c1)"
  shows "entries c1 ref = Some e \<and> v = valid e \<and> err = None"
  using assms
  by (auto simp: get_def Let_def split: option.splits if_splits prod.splits dest!: populate_frame)

lemma get_hit:
  assumes "entries c ref = Some e" and "\<not> shouldRefresh e (clockCheck ev)"
  shows "get d c ref target ev = ((Some e, valid e, None), c)"
  using assms by (simp add: get_def)

lemma run_frame: "entries (run c evs) = entries c \<and> intervals (run c evs) = intervals c"
  by (induction c evs rule: run.induct) (auto simp: garbageCollect_def logMsg_def)

subsection \<open>Evaluation of the example runs\<close>

lemmas interval_examples =
  intervalCache1_def intervalCache2_def pointCache_def emptyCache_def newSeriesCache_def
  updateSampleInterval_def accepts_def word_sless_alt word_sle_eq

lemmas counter_examples =
  counterCache0_def counterCache1_def counterCache2_def emptyCache_def newSeriesCache_def
  newEntry_def getResetAdjusted_def Let_def

lemma firstPopulate_ok:
  "fst firstPopulate = None"
  "(case proto (fst (snd firstPopulate)) of Some ts \<Rightarrow> True | None \<Rightarrow> False)"
  unfolding firstPopulate_def listedCache_def by code_simp+

lemma firstGet_eq:
  "firstGet = ((Some firstEntry, True, None), snd firstGet)
   \<and> firstEntry = setNextRefresh (fst (snd firstPopulate)) (clockSet exampleEnv) (jitter exampleEnv)"
proof -
  obtain e' c2 where p: "firstPopulate = (None, e', c2)"
    using firstPopulate_ok(1) by (metis prod.collapse)
  have v: "proto e' \<noteq> None"
    using firstPopulate_ok(2) by (auto simp: p split: option.splits)
  have miss: "entries exampleCache 1 = None" "getLabelsByRef exampleCache 1 = Some exampleLabels"
    by (simp_all add: exampleCache_def emptyCache_def newSeriesCache_def)
  have due: "shouldRefresh (newEntry exampleLabels :: real seriesCacheEntry) (clockCheck exampleEnv)"
    by (simp add: shouldRefresh_def newEntry_def Unix_def exampleEnv_def word_sless_alt)
  have g: "firstGet = ((Some (setNextRefresh e' (clockSet exampleEnv) (jitter exampleEnv)), True, None),
                    c2\<lparr>entries := (entries c2)(1 \<mapsto> setNextRefresh e' (clockSet exampleEnv) (jitter exampleEnv))\<rparr>)"
    using v miss due p [unfolded firstPopulate_def listedCache_def]
    by (simp add: firstGet_def get_def Let_def valid_def setNextRefresh_def)
  show ?thesis
    by (simp add: firstEntry_def p g)
qed

subsection \<open>Sample interval tracker\<close>

text \<open>
  Claim C1 says that a candidate \<open>(start, end)\<close> is accepted against a stored interval
  \<open>(s0, e0)\<close> if and only if \<open>(start = s0 \<and> end > e0) \<or> start \<ge> e0\<close>. The code asks more of
  the second disjunct: \<open>start > s0 \<and> start \<ge> e0\<close>. The two differ when \<open>e0 \<le> s0\<close>: the first
  interval of a hash is stored unchecked, here the point interval \<open>(10, 10)\<close>, and the
  same interval offered again satisfies the predicate of the claim but is rejected.
\<close>

theorem updateSampleInterval_spec_predicate_counterexample:
  "intervals pointCache 7 = Some \<lparr>si_start = 10, si_end = 10\<rparr>
   \<and> (((10::int64) = 10 \<and> (10::int64) <s 10) \<or> (10::int64) \<le>s 10)
   \<and> \<not> fst (updateSampleInterval pointCache 7 10 10)"
  by (simp add: interval_examples)

text \<open>
  Claim C1, as the code has it: with no interval stored for the hash, every candidate is
  accepted and stored; against a stored \<open>(s0, e0)\<close> the candidate is accepted if and only if
  \<open>(start = s0 \<and> end > e0) \<or> (start > s0 \<and> start \<ge> e0)\<close>, and an accepted candidate is stored
  for the hash, every other hash keeping its interval. For a stored interval with
  \<open>s0 < e0\<close> this is the predicate of the claim.
\<close>

theorem updateSampleInterval_accepts:
  "(intervals c h = None \<longrightarrow>
      updateSampleInterval c h s e
        = (True, c\<lparr>intervals := (intervals c)(h \<mapsto> \<lparr>si_start = s, si_end = e\<rparr>)\<rparr>))
   \<and> (\<forall>s0 e0. intervals c h = Some \<lparr>si_start = s0, si_end = e0\<rparr> \<longrightarrow>
        (fst (updateSampleInterval c h s e)
           \<longleftrightarrow> (s = s0 \<and> e0 <s e) \<or> (s0 <s s \<and> e0 \<le>s s))
        \<and> (fst (updateSampleInterval c h s e) \<longrightarrow>
             snd (updateSampleInterval c h s e)
               = c\<lparr>intervals := (intervals c)(h \<mapsto> \<lparr>si_start = s, si_end = e\<rparr>)\<rparr>)
        \<and> (s0 <s e0 \<longrightarrow>
             (fst (updateSampleInterval c h s e) \<longleftrightarrow> (s = s0 \<and> e0 <s e) \<or> e0 \<le>s s)))"
  by (auto simp: updateSampleInterval_def accepts_def)

theorem updateSampleInterval_accepts_witness:
  "intervals emptyCache 7 = None
   \<and> updateSampleInterval emptyCache 7 0 10
       = (True, emptyCache\<lparr>intervals := (intervals emptyCache)(7 \<mapsto> \<lparr>si_start = 0, si_end = 10\<rparr>)\<rparr>)
   \<and> intervals intervalCache1 7 = Some \<lparr>si_start = 0, si_end = 10\<rparr>
   \<and> (0::int64) <s 10
   \<and> fst (updateSampleInterval intervalCache1 7 0 20)
   \<and> intervals intervalCache2 7 = Some \<lparr>si_start = 0, si_end = 20\<rparr>
   \<and> \<not> fst (updateSampleInterval intervalCache2 7 5 15)
   \<and> fst (updateSampleInterval intervalCache2 7 20 30)"
proof -
  have h0: "intervals emptyCache 7 = None"
    by (simp add: emptyCache_def newSeriesCache_def)
  have h1: "intervals intervalCache1 7 = Some \<lparr>si_start = 0, si_end = 10\<rparr>"
    by (simp add: interval_examples)
  have h2: "intervals intervalCache2 7 = Some \<lparr>si_start = 0, si_end = 20\<rparr>"
    by (simp add: interval_examples)
  have lt: "(0::int64) <s 10" "(10::int64) <s 20" "(0::int64) <s 20" "\<not> (20::int64) <s 15"
    "(0::int64) <s 5" "\<not> (20::int64) \<le>s 5" "(20::int64) \<le>s 20" "(5::int64) \<noteq> 0" "(20::int64) \<noteq> 0"
    by (simp_all add: word_sless_alt word_sle_eq)
  show ?thesis
    using updateSampleInterval_accepts [of emptyCache 7 0 10]
      updateSampleInterval_accepts [of intervalCache1 7 0 20]
      updateSampleInterval_accepts [of intervalCache2 7 5 15]
      updateSampleInterval_accepts [of intervalCache2 7 20 30]
      h0 h1 h2 lt
    by simp
qed

text \<open>
  Claim C8: when \<open>updateSampleInterval\<close> returns false, the cache after the call is the
  cache before it; so the interval of the hash and of every other hash is what it was.
\<close>

theorem updateSampleInterval_rejection_frame:
  "updateSampleInterval c h s e = (False, c') \<Longrightarrow> c' = c"
  by (auto simp: updateSampleInterval_def split: option.splits if_splits)

theorem updateSampleInterval_rejection_frame_witness:
  "updateSampleInterval intervalCache2 7 5 15 = (False, intervalCache2)"
proof -
  have rej: "\<not> fst (updateSampleInterval intervalCache2 7 5 15)"
    by (simp add: interval_examples)
  then have "updateSampleInterval intervalCache2 7 5 15
               = (False, snd (updateSampleInterval intervalCache2 7 5 15))"
    by (simp add: prod_eq_iff)
  from updateSampleInterval_rejection_frame [OF this] rej show ?thesis
    by (simp add: prod_eq_iff)
qed

subsection \<open>Garbage collection\<close>

text \<open>
  Claim C10: \<open>garbageCollect\<close> returns a nil error and leaves the entries and the
  intervals as they were, in every cache state; hence so does \<open>run\<close>, whatever the
  sequence of ticks.
\<close>

theorem garbageCollect_frame:
  "fst (garbageCollect c) = None
   \<and> entries (snd (garbageCollect c)) = entries c
   \<and> intervals (snd (garbageCollect c)) = intervals c
   \<and> entries (run c evs) = entries c
   \<and> intervals (run c evs) = intervals c"
  by (simp add: garbageCollect_def logMsg_def run_frame)

subsection \<open>Counter reset adjuster\<close>

text \<open>
  Claim C2, for a series reference with a cache entry. The first sample records
  \<open>(t, v)\<close> as the baseline and returns \<open>ok = false\<close>. A later sample that is not below the
  baseline value (as \<open>v \<ge> baseline\<close> implies, for doubles as for the reals) returns the
  baseline timestamp, \<open>v - baseline\<close> and \<open>true\<close>, and leaves the cache as it was. A later
  sample below the baseline value sets the baseline value to 0 and the baseline timestamp
  to \<open>t - 1\<close> and returns \<open>(t - 1, v, true)\<close>; the returned value is computed as \<open>v - 0\<close>,
  which is \<open>v\<close> for doubles and for the reals.
\<close>

theorem getResetAdjusted_cases:
  fixes c :: "('f::{ord,minus,zero}) seriesCache"
  assumes "entries c ref = Some e"
  shows "(\<not> hasReset e \<longrightarrow>
            getResetAdjusted c ref t v
              = ((0, 0, False),
                 c\<lparr>entries := (entries c)
                      (ref \<mapsto> e\<lparr>hasReset := True, resetTimestamp := t, resetValue := v\<rparr>)\<rparr>))
       \<and> (hasReset e \<and> \<not> v < resetValue e \<longrightarrow>
            getResetAdjusted c ref t v = ((resetTimestamp e, v - resetValue e, True), c))
       \<and> (hasReset e \<and> v < resetValue e \<and> v - 0 = v \<longrightarrow>
            getResetAdjusted c ref t v
              = ((t - 1, v, True),
                 c\<lparr>entries := (entries c)
                      (ref \<mapsto> e\<lparr>resetValue := 0, resetTimestamp := t - 1\<rparr>)\<rparr>))"
proof (cases "hasReset e")
  case False
  then show ?thesis
    using assms by (simp add: getResetAdjusted_def)
next
  case True
  then have same: "e\<lparr>hasReset := True\<rparr> = e"
    by simp
  have idem: "c\<lparr>entries := (entries c)(ref \<mapsto> e)\<rparr> = c"
    using assms by (simp add: map_upd_triv)
  show ?thesis
    using assms True by (simp add: getResetAdjusted_def Let_def same idem)
qed

theorem getResetAdjusted_cases_witness:
  "entries counterCache0 1 = Some (newEntry exampleLabels)
   \<and> fst (getResetAdjusted counterCache0 1 100 5) = (0, 0, False)
   \<and> fst (getResetAdjusted counterCache1 1 110 8) = (100, 3, True)
   \<and> fst (getResetAdjusted counterCache2 1 120 2) = (119, 2, True)"
proof -
  let ?e0 = "newEntry exampleLabels :: real seriesCacheEntry"
  let ?e1 = "?e0\<lparr>hasReset := True, resetTimestamp := 100, resetValue := 5\<rparr>"
  have h0: "entries counterCache0 1 = Some ?e0"
    by (simp add: counterCache0_def)
  have n0: "\<not> hasReset ?e0"
    by (simp add: newEntry_def)
  have h1: "entries counterCache1 1 = Some ?e1"
    by (simp add: counter_examples)
  have h2: "entries counterCache2 1 = Some ?e1"
    by (simp add: counter_examples)
  have v1: "hasReset ?e1" "resetValue ?e1 = 5" "resetTimestamp ?e1 = 100"
    by simp_all
  show ?thesis
    using getResetAdjusted_cases [OF h0, of 100 5]
      getResetAdjusted_cases [OF h1, of 110 8]
      getResetAdjusted_cases [OF h2, of 120 2]
      h0 n0 v1
    by simp
qed

subsection \<open>Metric metadata\<close>

text \<open>
  Claim C3 says that the internal scrape metric names get the synthetic metadata and
  every other name the metadata of the target. The code asks the target first, for every
  name: a target that exposes metadata for \<open>up\<close> overrides the synthetic entry.
\<close>

theorem getMetadata_target_overrides_internal_counterexample:
  "map_of internalMetrics ''up''
     = Some \<lparr>md_Metric = ''up'', md_Type = MetricTypeGauge,
             md_Help = ''Up indicates whether the last target scrape was successful.''\<rparr>
   \<and> getMetadata upTarget ''up''
       = (\<lparr>md_Metric = ''up'', md_Type = MetricTypeCounter, md_Help = ''Uptime.''\<rparr>, True)
   \<and> MetricTypeCounter \<noteq> MetricTypeGauge"
  by (simp add: getMetadata_def internalMetrics_def upTarget_def MetricTypeCounter_def
        MetricTypeGauge_def)

text \<open>
  Claim C3, as the code has it: the metadata of the target is used whenever the target
  has some for the name; without it, the five internal scrape metric names get their
  synthetic metadata, of type gauge, and every other name has none.
\<close>

theorem getMetadata_precedence:
  "(target m = Some md \<longrightarrow> getMetadata target m = (md, True))
   \<and> (target m = None
        \<and> m \<in> {''up'', ''scrape_samples_scraped'', ''scrape_duration_seconds'',
                ''scrape_samples_post_metric_relabeling'', ''scrape_series_added''} \<longrightarrow>
        snd (getMetadata target m) \<and> md_Metric (fst (getMetadata target m)) = m
        \<and> md_Type (fst (getMetadata target m)) = MetricTypeGauge)
   \<and> (target m = None
        \<and> m \<notin> {''up'', ''scrape_samples_scraped'', ''scrape_duration_seconds'',
                ''scrape_samples_post_metric_relabeling'', ''scrape_series_added''} \<longrightarrow>
        \<not> snd (getMetadata target m))"
  by (auto simp: getMetadata_def internalMetrics_def)

theorem getMetadata_precedence_witness:
  "getMetadata upTarget ''up''
     = (\<lparr>md_Metric = ''up'', md_Type = MetricTypeCounter, md_Help = ''Uptime.''\<rparr>, True)
   \<and> snd (getMetadata exampleTarget ''up'')
   \<and> md_Type (fst (getMetadata exampleTarget ''up'')) = MetricTypeGauge
   \<and> \<not> snd (getMetadata exampleTarget ''rpc_seconds'')"
proof -
  have h: "upTarget ''up'' = Some \<lparr>md_Metric = ''up'', md_Type = MetricTypeCounter, md_Help = ''Uptime.''\<rparr>"
    "exampleTarget ''up'' = None" "exampleTarget ''rpc_seconds'' = None"
    by (simp_all add: upTarget_def exampleTarget_def)
  show ?thesis
    using getMetadata_precedence [of upTarget "''up''"
            "\<lparr>md_Metric = ''up'', md_Type = MetricTypeCounter, md_Help = ''Uptime.''\<rparr>"]
      getMetadata_precedence [of exampleTarget "''up''"]
      getMetadata_precedence [of exampleTarget "''rpc_seconds''"] h
    by simp
qed

subsection \<open>Label/resource extractor\<close>

text \<open>
  Claim C7: for a label set without the job label or without the instance label,
  \<open>extractResource\<close> returns \<open>ok = false\<close>, no monitored resource and no metric labels.
\<close>

theorem extractResource_missing_identity:
  "\<not> labels_Has ls keyJob \<or> \<not> labels_Has ls keyInstance
   \<Longrightarrow> extractResource c ls = (None, None, False)"
  by (auto simp: extractResource_def)

theorem extractResource_missing_identity_witness:
  "labels_Has ruleLabels keyJob \<and> \<not> labels_Has ruleLabels keyInstance
   \<and> extractResource exampleCache ruleLabels = (None, None, False)"
proof -
  have h: "labels_Has ruleLabels keyJob" "\<not> labels_Has ruleLabels keyInstance"
    by (simp_all add: ruleLabels_def labels_Has_def keyJob_def keyInstance_def)
  from extractResource_missing_identity [of ruleLabels exampleCache] h show ?thesis
    by simp
qed

subsection \<open>Cache lookup\<close>

text \<open>
  Claim C9: when \<open>get\<close> has returned an entry for a reference, a second \<open>get\<close> for the
  same reference, at a time that is not past the refresh deadline of the entry, returns
  the same entry with the same validity and leaves the cache as it was: nothing is
  populated again, whatever the target and the random source of the second call.
\<close>

theorem get_idempotent:
  assumes "get d c ref target ev = ((Some e, v, None), c1)"
      and "\<not> shouldRefresh e (clockCheck ev')"
  shows "get d c1 ref target' ev' = ((Some e, v, None), c1)"
  using get_stored [OF assms(1)] get_hit [of c1 ref e ev'] assms(2) by simp

theorem get_idempotent_witness:
  "firstGet = ((Some firstEntry, True, None), snd firstGet)
   \<and> nextRefresh firstEntry = 1600000605
   \<and> \<not> shouldRefresh firstEntry (clockCheck laterEnv)
   \<and> get exampleDecls (snd firstGet) 1 upTarget laterEnv = firstGet"
proof -
  have first: "firstGet = ((Some firstEntry, True, None), snd firstGet)"
    using firstGet_eq by simp
  have e: "firstEntry
          = setNextRefresh (fst (snd firstPopulate)) (clockSet exampleEnv) (jitter exampleEnv)"
    using firstGet_eq by simp
  have "nextRefresh firstEntry
               = Unix (clockSet exampleEnv + refreshInterval + jitter exampleEnv)"
    by (simp add: e setNextRefresh_def)
  then have n: "nextRefresh firstEntry = 1600000605"
    by (simp add: Unix_def refreshInterval_def exampleEnv_def)
  have fresh: "\<not> shouldRefresh firstEntry (clockCheck laterEnv)"
    using n by (simp add: shouldRefresh_def Unix_def laterEnv_def word_sless_alt)
  have "get exampleDecls exampleCache 1 exampleTarget exampleEnv
          = ((Some firstEntry, True, None), snd firstGet)"
    using first by (simp add: firstGet_def)
  from get_idempotent [OF this fresh, of upTarget] first n fresh show ?thesis
    by simp
qed

subsection \<open>Lemmas on the label library\<close>

lemma labels_Has_iff: "labels_Has ls n \<longleftrightarrow> n \<in> Name ` set ls"
  by (auto simp: labels_Has_def list_ex_iff)

lemma labels_Get_Nil [simp]: "labels_Get [] n = ''''"
  by (simp add: labels_Get_def)

lemma labels_Get_Cons:
  "labels_Get (l # ls) n = (if Name l = n then Value l else labels_Get ls n)"
  by (simp add: labels_Get_def)

lemma labels_Get_absent: "n \<notin> Name ` set ls \<Longrightarrow> labels_Get ls n = ''''"
  by (induction ls) (auto simp: labels_Get_Cons)

lemma labels_Get_member:
  "distinct (map Name ls) \<Longrightarrow> l \<in> set ls \<Longrightarrow> labels_Get ls (Name l) = Value l"
  by (induction ls) (auto simp: labels_Get_Cons)

lemma labels_Get_append:
  "labels_Get (xs @ ys) n = (if n \<in> Name ` set xs then labels_Get xs n else labels_Get ys n)"
  by (induction xs) (auto simp: labels_Get_Cons)

lemma labels_Get_filter_names:
  "labels_Get (filter (\<lambda>l. Name l \<notin> D) ls) n = (if n \<in> D then '''' else labels_Get ls n)"
  by (induction ls) (auto simp: labels_Get_Cons)

lemma labels_Get_filter_ne:
  "labels_Get (filter (\<lambda>a. Name a \<noteq> m) ls) n = (if n = m then '''' else labels_Get ls n)"
  by (induction ls) (auto simp: labels_Get_Cons)

lemma labels_Get_sort: "labels_Get (sort_key Name ls) n = labels_Get ls n"
proof -
  have "find (\<lambda>l. Name l = n) xs = (case filter (\<lambda>l. Name l = n) xs of [] \<Rightarrow> None | l # _ \<Rightarrow> Some l)"
    for xs :: Labels
    by (induction xs) auto
  then show ?thesis
    by (simp add: labels_Get_def sort_key_stable)
qed

lemma labels_Get_setAdd:
  "labels_Get (setAdd as n v) m = (if m = n then v else labels_Get as m)"
  by (induction as) (auto simp: labels_Get_Cons)

lemma names_setAdd: "Name ` set (setAdd as n v) = insert n (Name ` set as)"
  by (induction as) auto

lemma distinct_setAdd:
  "distinct (map Name as) \<Longrightarrow> distinct (map Name (setAdd as n v))"
proof (induction as)
  case Nil
  then show ?case by simp
next
  case (Cons a as)
  then show ?case
    using names_setAdd [of as n v] by (auto simp: image_iff)
qed


lemma Builder_Set_base [simp]: "base (Builder_Set b n v) = base b"
  by (simp add: Builder_Set_def Builder_Del_def)

lemma Builder_Del_base [simp]: "base (Builder_Del b n) = base b"
  by (simp add: Builder_Del_def)

lemma Builder_Set_Get:
  "labels_Get (add (Builder_Set b n v)) m = (if m = n then v else labels_Get (add b) m)"
  by (simp add: Builder_Set_def Builder_Del_def labels_Get_setAdd labels_Get_filter_ne)

lemma Builder_Set_names:
  "Name ` set (add (Builder_Set b n v)) \<subseteq> insert n (Name ` set (add b))"
  by (auto simp: Builder_Set_def Builder_Del_def names_setAdd)

lemma Builder_Set_del: "set (del (Builder_Set b n v)) \<subseteq> insert n (set (del b))"
  by (auto simp: Builder_Set_def Builder_Del_def)

lemma Builder_Set_distinct:
  "distinct (map Name (add b)) \<Longrightarrow> distinct (map Name (add (Builder_Set b n v)))"
  by (simp add: Builder_Set_def Builder_Del_def distinct_setAdd distinct_map_filter)

text \<open>The loop over the external labels, from any builder.\<close>

lemma merge_base:
  "base (fold (\<lambda>l b. if \<not> labels_Has ls (Name l) then Builder_Set b (Name l) (Value l) else b)
           ext b) = base b"
  by (induction ext arbitrary: b) auto

lemma merge_names:
  "Name ` set (add (fold (\<lambda>l b. if \<not> labels_Has ls (Name l)
                                 then Builder_Set b (Name l) (Value l) else b) ext b))
     \<subseteq> Name ` set (add b) \<union> {n. \<not> labels_Has ls n}"
proof (induction ext arbitrary: b)
  case Nil
  then show ?case by simp
next
  case (Cons l ext)
  show ?case
  proof (cases "labels_Has ls (Name l)")
    case True
    then show ?thesis
      using Cons.IH [of b] by simp
  next
    case False
    have "Name ` set (add (Builder_Set b (Name l) (Value l)))
            \<subseteq> Name ` set (add b) \<union> {n. \<not> labels_Has ls n}"
      using Builder_Set_names [of b "Name l" "Value l"] False by auto
    with Cons.IH [of "Builder_Set b (Name l) (Value l)"] False show ?thesis
      by simp blast
  qed
qed

lemma merge_del:
  "set (del (fold (\<lambda>l b. if \<not> labels_Has ls (Name l)
                          then Builder_Set b (Name l) (Value l) else b) ext b))
     \<subseteq> set (del b) \<union> {n. \<not> labels_Has ls n}"
proof (induction ext arbitrary: b)
  case Nil
  then show ?case by simp
next
  case (Cons l ext)
  show ?case
  proof (cases "labels_Has ls (Name l)")
    case True
    then show ?thesis
      using Cons.IH [of b] by simp
  next
    case False
    have "set (del (Builder_Set b (Name l) (Value l)))
            \<subseteq> set (del b) \<union> {n. \<not> labels_Has ls n}"
      using Builder_Set_del [of b "Name l" "Value l"] False by auto
    with Cons.IH [of "Builder_Set b (Name l) (Value l)"] False show ?thesis
      by simp blast
  qed
qed

lemma merge_distinct:
  "distinct (map Name (add b)) \<Longrightarrow>
   distinct (map Name (add (fold (\<lambda>l b. if \<not> labels_Has ls (Name l)
                                         then Builder_Set b (Name l) (Value l) else b) ext b)))"
  by (induction ext arbitrary: b) (auto simp: Builder_Set_distinct)

lemma merge_Get_other:
  "n \<notin> Name ` set ext \<or> labels_Has ls n \<Longrightarrow>
   labels_Get (add (fold (\<lambda>l b. if \<not> labels_Has ls (Name l)
                                 then Builder_Set b (Name l) (Value l) else b) ext b)) n
     = labels_Get (add b) n"
  by (induction ext arbitrary: b) (auto simp: Builder_Set_Get)

lemma merge_Get_external:
  "distinct (map Name ext) \<Longrightarrow> l \<in> set ext \<Longrightarrow> \<not> labels_Has ls (Name l) \<Longrightarrow>
   labels_Get (add (fold (\<lambda>l b. if \<not> labels_Has ls (Name l)
                                 then Builder_Set b (Name l) (Value l) else b) ext b)) (Name l)
     = Value l"
proof (induction ext arbitrary: b)
  case Nil
  then show ?case by simp
next
  case (Cons x ext)
  show ?case
  proof (cases "l = x")
    case True
    then have "Name l \<notin> Name ` set ext"
      using Cons.prems(1) by auto
    then show ?thesis
      using True Cons.prems(3) by (simp add: merge_Get_other Builder_Set_Get)
  next
    case False
    then show ?thesis
      using Cons by auto
  qed
qed

text \<open>What \<open>Labels\<close> returns for a name.\<close>

lemma Builder_Labels_Get:
  "labels_Get (Builder_Labels b) n =
     (if del b = [] \<and> add b = [] then labels_Get (base b) n
      else if n \<notin> set (del b) \<and> n \<notin> Name ` set (add b) \<and> n \<in> Name ` set (base b)
           then labels_Get (base b) n
           else labels_Get (add b) n)"
proof -
  have names: "Name ` set (filter (\<lambda>l. Name l \<notin> D) xs) = Name ` set xs - D" for D and xs :: Labels
    by auto
  have "labels_Get (filter (\<lambda>l. Name l \<notin> set (del b) \<and> Name l \<notin> Name ` set (add b)) (base b) @ add b) n
          = (if n \<notin> set (del b) \<and> n \<notin> Name ` set (add b) \<and> n \<in> Name ` set (base b)
             then labels_Get (base b) n else labels_Get (add b) n)"
    using labels_Get_filter_names [of "set (del b) \<union> Name ` set (add b)" "base b" n]
      names [of "set (del b) \<union> Name ` set (add b)" "base b"]
    by (simp add: labels_Get_append)
  then show ?thesis
    by (simp add: Builder_Labels_def labels_Get_sort)
qed

lemma names_filter: "Name ` set (filter (\<lambda>l. Name l \<notin> D) xs) = Name ` set xs - D"
  by auto

lemma Builder_Labels_names:
  "del b \<noteq> [] \<Longrightarrow>
   Name ` set (Builder_Labels b)
     = (Name ` set (base b) - (set (del b) \<union> Name ` set (add b))) \<union> Name ` set (add b)"
  using names_filter [of "set (del b) \<union> Name ` set (add b)" "base b"]
  by (simp add: Builder_Labels_def image_Un Un_commute)

lemma distinct_names_sort:
  "distinct (map Name (sort_key Name xs)) = distinct (map Name xs)"
  by (simp add: distinct_map)

lemma Builder_Labels_distinct:
  assumes "distinct (map Name (base b))" and "distinct (map Name (add b))"
  shows "distinct (map Name (Builder_Labels b))"
proof -
  have "distinct (map Name (filter (\<lambda>l. Name l \<notin> set (del b) \<and> Name l \<notin> Name ` set (add b)) (base b)))"
    using assms(1) by (rule distinct_map_filter)
  then have "distinct (map Name (filter (\<lambda>l. Name l \<notin> set (del b) \<and> Name l \<notin> Name ` set (add b)) (base b)
                                 @ add b))"
    using assms(2) by auto
  then show ?thesis
    using assms(1) by (simp add: Builder_Labels_def distinct_names_sort del: map_append)
qed

text \<open>The builder after the loop over the external labels.\<close>

lemma mergeExternal_base: "base (mergeExternal ls ext) = ls"
  by (simp add: mergeExternal_def merge_base NewBuilder_def)

lemma mergeExternal_names:
  "n \<in> Name ` set (add (mergeExternal ls ext)) \<Longrightarrow> \<not> labels_Has ls n"
  using merge_names [of ls ext "NewBuilder ls"] by (auto simp: mergeExternal_def NewBuilder_def)

lemma mergeExternal_del:
  "n \<in> set (del (mergeExternal ls ext)) \<Longrightarrow>
   \<not> labels_Has ls n \<or> (\<exists>l \<in> set ls. Name l = n \<and> Value l = [])"
  using merge_del [of ls ext "NewBuilder ls"] by (auto simp: mergeExternal_def NewBuilder_def)

lemma mergeExternal_distinct: "distinct (map Name (add (mergeExternal ls ext)))"
  by (simp add: mergeExternal_def merge_distinct NewBuilder_def)

lemma mergeExternal_Get:
  assumes "distinct (map Name ext)" and "\<not> labels_Has ls n"
  shows "labels_Get (add (mergeExternal ls ext)) n = labels_Get ext n"
proof (cases "n \<in> Name ` set ext")
  case True
  then obtain l where l: "l \<in> set ext" "Name l = n"
    by auto
  then show ?thesis
    using merge_Get_external [OF assms(1) l(1), of ls "NewBuilder ls"] assms
      labels_Get_member [OF assms(1) l(1)]
    by (simp add: mergeExternal_def)
next
  case False
  then show ?thesis
    using merge_Get_other [of n ext ls "NewBuilder ls"]
    by (simp add: mergeExternal_def NewBuilder_def labels_Get_absent)
qed

lemma deleted_original_empty:
  assumes "distinct (map Name ls)" and "labels_Has ls n" and "n \<in> set (del (mergeExternal ls ext))"
  shows "labels_Get ls n = []"
proof -
  obtain l where "l \<in> set ls" "Name l = n" "Value l = []"
    using mergeExternal_del [OF assms(3)] assms(2) by auto
  then show ?thesis
    using labels_Get_member [OF assms(1), of l] by simp
qed

lemma merged_Get:
  assumes "distinct (map Name ls)" and "distinct (map Name ext)"
  shows "labels_Get (Builder_Labels (mergeExternal ls ext)) n = specMerged ls ext n"
proof (cases "labels_Has ls n")
  case True
  then have absent: "n \<notin> Name ` set (add (mergeExternal ls ext))"
    using mergeExternal_names by blast
  then have "labels_Get (add (mergeExternal ls ext)) n = []"
    by (rule labels_Get_absent)
  then show ?thesis
    using True absent deleted_original_empty [OF assms(1) True, of ext]
    by (auto simp: Builder_Labels_Get mergeExternal_base specMerged_def labels_Has_iff)
next
  case False
  then have "labels_Get ls n = []"
    by (simp add: labels_Has_iff labels_Get_absent)
  then show ?thesis
    using False mergeExternal_Get [OF assms(2) False]
    by (auto simp: Builder_Labels_Get mergeExternal_base specMerged_def labels_Has_iff)
qed

lemma merged_choice:
  assumes "distinct (map Name ls)" and "distinct (map Name ext)"
  shows "(if n \<notin> set (del (mergeExternal ls ext)) \<and> n \<notin> Name ` set (add (mergeExternal ls ext))
             \<and> n \<in> Name ` set ls
          then labels_Get ls n else labels_Get (add (mergeExternal ls ext)) n)
           = specMerged ls ext n"
proof (cases "labels_Has ls n")
  case True
  then have absent: "n \<notin> Name ` set (add (mergeExternal ls ext))"
    using mergeExternal_names by blast
  then have "labels_Get (add (mergeExternal ls ext)) n = []"
    by (rule labels_Get_absent)
  then show ?thesis
    using True absent deleted_original_empty [OF assms(1) True, of ext]
    by (auto simp: specMerged_def labels_Has_iff)
next
  case False
  then show ?thesis
    using mergeExternal_Get [OF assms(2) False]
    by (auto simp: specMerged_def labels_Has_iff)
qed

text \<open>The builder after the five deletions of \<open>extractResource\<close>.\<close>

lemma delete_keys_add:
  "add (Builder_Del (Builder_Del (Builder_Del (Builder_Del (Builder_Del b
          keyLocation) keyCluster) keyNamespace) keyJob) keyInstance)
     = filter (\<lambda>a. Name a \<notin> set resourceKeys) (add b)"
  by (auto simp: Builder_Del_def resourceKeys_def intro: filter_cong)

lemma delete_keys:
  fixes b :: Builder
  defines "b5 \<equiv> Builder_Del (Builder_Del (Builder_Del (Builder_Del (Builder_Del b
                   keyLocation) keyCluster) keyNamespace) keyJob) keyInstance"
  shows "base b5 = base b"
    and "del b5 = del b @ resourceKeys"
    and "Name ` set (add b5) = Name ` set (add b) - set resourceKeys"
    and "labels_Get (add b5) n = (if n \<in> set resourceKeys then [] else labels_Get (add b) n)"
    and "distinct (map Name (add b)) \<Longrightarrow> distinct (map Name (add b5))"
proof -
  show "base b5 = base b" and "del b5 = del b @ resourceKeys"
    unfolding b5_def by (simp_all add: Builder_Del_def resourceKeys_def)
  have a: "add b5 = filter (\<lambda>a. Name a \<notin> set resourceKeys) (add b)"
    unfolding b5_def by (rule delete_keys_add)
  show "Name ` set (add b5) = Name ` set (add b) - set resourceKeys"
    unfolding a by (rule names_filter)
  show "labels_Get (add b5) n = (if n \<in> set resourceKeys then [] else labels_Get (add b) n)"
    unfolding a by (rule labels_Get_filter_names)
  show "distinct (map Name (add b)) \<Longrightarrow> distinct (map Name (add b5))"
    unfolding a by (rule distinct_map_filter)
qed

lemma extractResource_ok:
  assumes "labels_Has ls keyJob" and "labels_Has ls keyInstance"
  shows "extractResource c ls =
           (Some \<lparr>res_Type = ''prometheus_target'',
                  res_Labels =
                    map (\<lambda>k. (k, labels_Get (Builder_Labels (mergeExternal ls (getExternalLabels c ()))) k))
                        resourceKeys\<rparr>,
            Some (Builder_Labels
                    (Builder_Del (Builder_Del (Builder_Del (Builder_Del (Builder_Del
                       (mergeExternal ls (getExternalLabels c ()))
                       keyLocation) keyCluster) keyNamespace) keyJob) keyInstance)),
            True)"
  using assms by (simp add: extractResource_def Let_def resourceKeys_def)

lemma map_of_keys:
  "k \<in> set resourceKeys \<Longrightarrow> map_of (map (\<lambda>k. (k, f k)) resourceKeys) k = Some (f k)"
  by (simp add: map_of_map_restrict)

lemma extractResource_metric_labels:
  assumes "extractResource c ls = (res, Some ml, True)"
      and "distinct (map Name ls)"
  shows "distinct (map Name ml)" and "\<forall>k \<in> set resourceKeys. \<not> labels_Has ml k"
proof -
  let ?b = "mergeExternal ls (getExternalLabels c ())"
  let ?b5 = "Builder_Del (Builder_Del (Builder_Del (Builder_Del (Builder_Del ?b
               keyLocation) keyCluster) keyNamespace) keyJob) keyInstance"
  have has: "labels_Has ls keyJob" "labels_Has ls keyInstance"
    using assms(1) by (auto simp: extractResource_def split: if_splits)
  have ml: "ml = Builder_Labels ?b5"
    using assms(1) extractResource_ok [OF has, of c] by simp
  have "distinct (map Name (add ?b5))"
    using delete_keys(5) [OF mergeExternal_distinct] .
  then show "distinct (map Name ml)"
    using assms(2) by (simp add: ml Builder_Labels_distinct delete_keys(1) mergeExternal_base)
  have "del ?b5 \<noteq> []"
    by (simp add: delete_keys(2) resourceKeys_def)
  then have "Name ` set ml
               = (Name ` set (base ?b5) - (set (del ?b5) \<union> Name ` set (add ?b5))) \<union> Name ` set (add ?b5)"
    unfolding ml by (rule Builder_Labels_names)
  then show "\<forall>k \<in> set resourceKeys. \<not> labels_Has ml k"
    by (auto simp: labels_Has_iff delete_keys(2,3))
qed

subsection \<open>Merging the external labels\<close>

text \<open>
  Claim C6: for a label set with the job and the instance label, \<open>extractResource\<close>
  succeeds, and every name has in its output (the resource labels for the five resource
  names, which leave the metric labels, and the metric labels for every other name) the
  value \<open>specMerged\<close> gives it: the value of the original label when the original set has
  the name, so that the original wins a collision, and the value of the external label
  only when the original set lacks the name. Label sets are sets: no name occurs twice in
  the original set or in the external labels.
\<close>

theorem extractResource_merges_external:
  assumes "labels_Has ls keyJob" and "labels_Has ls keyInstance"
      and "distinct (map Name ls)" and "distinct (map Name (getExternalLabels c ()))"
  shows "\<exists>mres ml. extractResource c ls = (Some mres, Some ml, True)
           \<and> (\<forall>k \<in> set resourceKeys.
                 map_of (res_Labels mres) k = Some (specMerged ls (getExternalLabels c ()) k)
                 \<and> \<not> labels_Has ml k)
           \<and> (\<forall>n. n \<notin> set resourceKeys \<longrightarrow>
                 labels_Get ml n = specMerged ls (getExternalLabels c ()) n)
           \<and> (\<forall>l \<in> set ls. specMerged ls (getExternalLabels c ()) (Name l) = Value l)
           \<and> (\<forall>l \<in> set (getExternalLabels c ()).
                 \<not> labels_Has ls (Name l) \<longrightarrow>
                 specMerged ls (getExternalLabels c ()) (Name l) = Value l)"
proof -
  let ?ext = "getExternalLabels c ()"
  let ?b = "mergeExternal ls ?ext"
  let ?b5 = "Builder_Del (Builder_Del (Builder_Del (Builder_Del (Builder_Del ?b
               keyLocation) keyCluster) keyNamespace) keyJob) keyInstance"
  let ?mres = "\<lparr>res_Type = ''prometheus_target'',
                res_Labels = map (\<lambda>k. (k, labels_Get (Builder_Labels ?b) k)) resourceKeys\<rparr>"
  have res: "extractResource c ls = (Some ?mres, Some (Builder_Labels ?b5), True)"
    using assms(1,2) by (rule extractResource_ok)
  have keys: "\<forall>k \<in> set resourceKeys.
                map_of (res_Labels ?mres) k = Some (specMerged ls ?ext k)
                \<and> \<not> labels_Has (Builder_Labels ?b5) k"
    using extractResource_metric_labels(2) [OF res assms(3)]
    by (simp add: map_of_keys merged_Get [OF assms(3,4)])
  have nonempty: "del ?b5 \<noteq> []"
    by (simp add: delete_keys(2) resourceKeys_def)
  have others: "labels_Get (Builder_Labels ?b5) n = specMerged ls ?ext n"
    if "n \<notin> set resourceKeys" for n
  proof -
    have "labels_Get (Builder_Labels ?b5) n
            = (if n \<notin> set (del ?b5) \<and> n \<notin> Name ` set (add ?b5) \<and> n \<in> Name ` set (base ?b5)
               then labels_Get (base ?b5) n else labels_Get (add ?b5) n)"
      by (subst Builder_Labels_Get) (use nonempty in simp)
    also have "\<dots> = (if n \<notin> set (del ?b) \<and> n \<notin> Name ` set (add ?b) \<and> n \<in> Name ` set ls
                      then labels_Get ls n else labels_Get (add ?b) n)"
      using that by (simp add: delete_keys mergeExternal_base)
    also have "\<dots> = specMerged ls ?ext n"
      by (rule merged_choice [OF assms(3,4)])
    finally show ?thesis .
  qed
  have orig: "\<forall>l \<in> set ls. specMerged ls ?ext (Name l) = Value l"
    using assms(3) by (auto simp: specMerged_def labels_Has_iff labels_Get_member)
  have ext: "\<forall>l \<in> set ?ext. \<not> labels_Has ls (Name l) \<longrightarrow> specMerged ls ?ext (Name l) = Value l"
    using assms(4) by (auto simp: specMerged_def labels_Get_member)
  show ?thesis
    using res keys others orig ext by blast
qed

theorem extractResource_merges_external_witness:
  "labels_Has exampleLabels keyJob \<and> labels_Has exampleLabels keyInstance
   \<and> distinct (map Name exampleLabels)
   \<and> getExternalLabels exampleCache ()
       = [\<lparr>Name = ''cluster'', Value = ''c1''\<rparr>, \<lparr>Name = ''job'', Value = ''external''\<rparr>]
   \<and> (\<exists>mres ml. extractResource exampleCache exampleLabels = (Some mres, Some ml, True)
         \<and> map_of (res_Labels mres) keyJob = Some ''a''
         \<and> map_of (res_Labels mres) keyCluster = Some ''c1''
         \<and> labels_Get ml ''__name__'' = ''http_requests_total'')"
proof -
  have ext: "getExternalLabels exampleCache ()
               = [\<lparr>Name = ''cluster'', Value = ''c1''\<rparr>, \<lparr>Name = ''job'', Value = ''external''\<rparr>]"
    by (simp add: exampleCache_def)
  have h: "labels_Has exampleLabels keyJob" "labels_Has exampleLabels keyInstance"
    "distinct (map Name exampleLabels)" "distinct (map Name (getExternalLabels exampleCache ()))"
    by (simp_all add: ext exampleLabels_def labels_Has_def keyJob_def keyInstance_def)
  have k: "keyJob \<in> set resourceKeys" "keyCluster \<in> set resourceKeys"
    "''__name__'' \<notin> set resourceKeys"
    by (simp_all add: resourceKeys_def keyJob_def keyInstance_def keyLocation_def keyCluster_def
          keyNamespace_def)
  have v: "specMerged exampleLabels (getExternalLabels exampleCache ()) keyJob = ''a''"
    "specMerged exampleLabels (getExternalLabels exampleCache ()) keyCluster = ''c1''"
    "specMerged exampleLabels (getExternalLabels exampleCache ()) ''__name__'' = ''http_requests_total''"
    by (simp_all add: ext specMerged_def exampleLabels_def labels_Has_def labels_Get_def
          keyJob_def keyCluster_def)
  from extractResource_merges_external [OF h] obtain mres ml where
    r: "extractResource exampleCache exampleLabels = (Some mres, Some ml, True)"
    and a: "\<forall>k \<in> set resourceKeys.
              map_of (res_Labels mres) k = Some (specMerged exampleLabels (getExternalLabels exampleCache ()) k)
              \<and> \<not> labels_Has ml k"
    and b: "\<forall>n. n \<notin> set resourceKeys \<longrightarrow>
              labels_Get ml n = specMerged exampleLabels (getExternalLabels exampleCache ()) n"
    by blast
  have "map_of (res_Labels mres) keyJob = Some ''a''"
    "map_of (res_Labels mres) keyCluster = Some ''c1''"
    "labels_Get ml ''__name__'' = ''http_requests_total''"
    using a b k v by auto
  with r h ext show ?thesis
    by blast
qed

subsection \<open>The label cap\<close>













subsection \<open>Classification of metric types\<close>

lemmas metric_type_defs =
  MetricTypeCounter_def MetricTypeGauge_def MetricTypeHistogram_def MetricTypeSummary_def
  MetricTypeUnknown_def metricSuffixSum_def metricSuffixCount_def metricSuffixNone_def

lemma labels_Map_fold:
  "map_of (fold (\<lambda>l m. AList.update (Name l) (Value l) m) ls m0) n
     = (if n \<in> Name ` set ls then Some (labels_Get (rev ls) n) else map_of m0 n)"
proof (induction ls arbitrary: m0)
  case Nil
  then show ?case by simp
next
  case (Cons l ls)
  show ?case
    by (auto simp: Cons.IH update_conv' labels_Get_append labels_Get_Cons image_iff)
qed

lemma labels_Map_None: "map_of (labels_Map ls) n = None \<longleftrightarrow> n \<notin> Name ` set ls"
  by (simp add: labels_Map_def labels_Map_fold)

lemma removeLabel_subset: "set (removeLabel n ls) \<subseteq> set ls"
  by (induction ls) auto

lemma removeLabel_distinct:
  "distinct (map Name ls) \<Longrightarrow> distinct (map Name (removeLabel n ls))"
  using removeLabel_subset [of n] by (induction ls) (auto simp: image_iff)

lemma removeLabel_absent:
  "distinct (map Name ls) \<Longrightarrow> n \<notin> Name ` set (removeLabel n ls)"
  using removeLabel_subset [of n] by (induction ls) (auto simp: image_iff)

lemma example_extract:
  "extractResource listedCache exampleLabels
     = (Some \<lparr>res_Type = ''prometheus_target'',
              res_Labels = [(''location'', ''''), (''cluster'', ''c1''), (''namespace'', ''''),
                            (''job'', ''a''), (''instance'', ''1:9090'')]\<rparr>,
        Some [\<lparr>Name = ''__name__'', Value = ''http_requests_total''\<rparr>], True)"
  "extractResource exampleCache bucketLabels
     = (Some \<lparr>res_Type = ''prometheus_target'',
              res_Labels = [(''location'', ''''), (''cluster'', ''c1''), (''namespace'', ''''),
                            (''job'', ''a''), (''instance'', ''1:9090'')]\<rparr>,
        Some [\<lparr>Name = ''__name__'', Value = ''rpc_latency_bucket''\<rparr>,
              \<lparr>Name = ''le'', Value = ''0.5''\<rparr>, \<lparr>Name = ''method'', Value = ''GET''\<rparr>], True)"
  "extractResource exampleCache infoLabels
     = (Some \<lparr>res_Type = ''prometheus_target'',
              res_Labels = [(''location'', ''''), (''cluster'', ''c1''), (''namespace'', ''''),
                            (''job'', ''a''), (''instance'', ''1:9090'')]\<rparr>,
        Some [\<lparr>Name = ''__name__'', Value = ''build_info''\<rparr>], True)"
  unfolding listedCache_def by code_simp+

lemma example_resolve:
  "resolveMetadata exampleDecls exampleTarget (labels_Get exampleLabels ''__name__'')
     = Some (\<lparr>md_Metric = ''http_requests_total'', md_Type = MetricTypeCounter,
               md_Help = ''Requests served.''\<rparr>, '''', '''')"
  "resolveMetadata exampleDecls richTarget (labels_Get bucketLabels ''__name__'')
     = Some (\<lparr>md_Metric = ''rpc_latency'', md_Type = MetricTypeHistogram, md_Help = ''Latency.''\<rparr>,
             ''rpc_latency'', ''_bucket'')"
  "resolveMetadata exampleDecls richTarget (labels_Get infoLabels ''__name__'')
     = Some (\<lparr>md_Metric = ''build_info'', md_Type = MetricTypeInfo, md_Help = ''Build.''\<rparr>,
             '''', '''')"
  by (simp_all add: resolveMetadata_def getMetadata_def internalMetrics_def exampleTarget_def
        richTarget_def exampleDecls_def labels_Get_def exampleLabels_def bucketLabels_def
        infoLabels_def)

text \<open>
  Claim C4, for a series whose resource is extracted, whose metric labels are within the
  cap and whose metadata is resolved to \<open>md\<close> with the suffix \<open>sfx\<close>: \<open>populate\<close> assigns
  CUMULATIVE/DOUBLE to a counter, GAUGE/DOUBLE to a gauge and to the unknown type,
  CUMULATIVE/DISTRIBUTION to a histogram, whose metric labels are those of the series
  without the first \<open>le\<close> label, hence without any \<open>le\<close> label when the label set
  repeats no name, and to a summary CUMULATIVE/DOUBLE for the suffix \<open>_sum\<close>,
  CUMULATIVE/INT64 for \<open>_count\<close> and GAUGE/DOUBLE for no suffix. A summary with another
  suffix and every other metric type make \<open>populate\<close> return an error and leave the entry
  as it was.
\<close>

theorem populate_classification:
  assumes "extractResource c (lset e) = (Some res, Some ml, True)"
      and "length (removeLabel ''__name__'' ml) \<le> maxLabelCount d"
      and "resolveMetadata d target (labels_Get (lset e) ''__name__'') = Some (md, baseName, sfx)"
  shows "(md_Type md = MetricTypeCounter \<longrightarrow>
            classifiedAs (populate d c e target)
              MetricDescriptor_CUMULATIVE MetricDescriptor_DOUBLE)
       \<and> (md_Type md = MetricTypeGauge \<or> md_Type md = MetricTypeUnknown \<longrightarrow>
            classifiedAs (populate d c e target)
              MetricDescriptor_GAUGE MetricDescriptor_DOUBLE)
       \<and> (md_Type md = MetricTypeHistogram \<longrightarrow>
            classifiedAs (populate d c e target)
              MetricDescriptor_CUMULATIVE MetricDescriptor_DISTRIBUTION
            \<and> protoLabels (populate d c e target)
                = labels_Map (removeLabel ''le'' (removeLabel ''__name__'' ml))
            \<and> (distinct (map Name (lset e)) \<longrightarrow>
                 map_of (protoLabels (populate d c e target)) ''le'' = None))
       \<and> (md_Type md = MetricTypeSummary \<and> sfx = metricSuffixSum \<longrightarrow>
            classifiedAs (populate d c e target)
              MetricDescriptor_CUMULATIVE MetricDescriptor_DOUBLE)
       \<and> (md_Type md = MetricTypeSummary \<and> sfx = metricSuffixCount \<longrightarrow>
            classifiedAs (populate d c e target)
              MetricDescriptor_CUMULATIVE MetricDescriptor_INT64)
       \<and> (md_Type md = MetricTypeSummary \<and> sfx = metricSuffixNone \<longrightarrow>
            classifiedAs (populate d c e target)
              MetricDescriptor_GAUGE MetricDescriptor_DOUBLE)
       \<and> (md_Type md = MetricTypeSummary
            \<and> sfx \<notin> {metricSuffixSum, metricSuffixCount, metricSuffixNone} \<longrightarrow>
            populate d c e target = (Some (UnexpectedMetricNameSuffix sfx), e, c))
       \<and> (md_Type md \<notin> {MetricTypeCounter, MetricTypeGauge, MetricTypeUnknown,
                           MetricTypeSummary, MetricTypeHistogram} \<longrightarrow>
            populate d c e target = (Some (UnexpectedMetricType (md_Type md)), e, c))
       \<and> (fst (populate d c e target) = None \<longrightarrow>
            metadata (fst (snd (populate d c e target))) = md
            \<and> suffix (fst (snd (populate d c e target))) = sfx
            \<and> snd (snd (populate d c e target)) = c)"
proof -
  have cap: "\<not> maxLabelCount d < length (removeLabel ''__name__'' ml)"
    using assms(2) by simp
  note unfold = populate_def assms(1,3) cap Let_def classifiedAs_def protoLabels_def hashSeries_def
  have counter: "md_Type md = MetricTypeCounter \<longrightarrow>
      classifiedAs (populate d c e target) MetricDescriptor_CUMULATIVE MetricDescriptor_DOUBLE"
    by (simp add: unfold metric_type_defs)
  have gauge: "md_Type md = MetricTypeGauge \<or> md_Type md = MetricTypeUnknown \<longrightarrow>
      classifiedAs (populate d c e target) MetricDescriptor_GAUGE MetricDescriptor_DOUBLE"
    by (auto simp: unfold metric_type_defs)
  have hist: "md_Type md = MetricTypeHistogram \<longrightarrow>
      classifiedAs (populate d c e target) MetricDescriptor_CUMULATIVE MetricDescriptor_DISTRIBUTION
      \<and> protoLabels (populate d c e target)
          = labels_Map (removeLabel ''le'' (removeLabel ''__name__'' ml))"
    by (simp add: unfold metric_type_defs)
  have "distinct (map Name (removeLabel ''__name__'' ml))" if "distinct (map Name (lset e))"
    using extractResource_metric_labels(1) [OF assms(1) that] by (rule removeLabel_distinct)
  then have le: "distinct (map Name (lset e)) \<longrightarrow>
      map_of (labels_Map (removeLabel ''le'' (removeLabel ''__name__'' ml))) ''le'' = None"
    by (simp add: labels_Map_None removeLabel_absent)
  have sum: "md_Type md = MetricTypeSummary \<and> sfx = metricSuffixSum \<longrightarrow>
      classifiedAs (populate d c e target) MetricDescriptor_CUMULATIVE MetricDescriptor_DOUBLE"
    by (simp add: unfold metric_type_defs)
  have count: "md_Type md = MetricTypeSummary \<and> sfx = metricSuffixCount \<longrightarrow>
      classifiedAs (populate d c e target) MetricDescriptor_CUMULATIVE MetricDescriptor_INT64"
    by (simp add: unfold metric_type_defs)
  have quantile: "md_Type md = MetricTypeSummary \<and> sfx = metricSuffixNone \<longrightarrow>
      classifiedAs (populate d c e target) MetricDescriptor_GAUGE MetricDescriptor_DOUBLE"
    by (simp add: unfold metric_type_defs)
  have badsfx: "md_Type md = MetricTypeSummary
      \<and> sfx \<notin> {metricSuffixSum, metricSuffixCount, metricSuffixNone} \<longrightarrow>
      populate d c e target = (Some (UnexpectedMetricNameSuffix sfx), e, c)"
    by (simp add: unfold metric_type_defs)
  have badtype: "md_Type md \<notin> {MetricTypeCounter, MetricTypeGauge, MetricTypeUnknown,
                                MetricTypeSummary, MetricTypeHistogram} \<longrightarrow>
      populate d c e target = (Some (UnexpectedMetricType (md_Type md)), e, c)"
    by (simp add: unfold metric_type_defs)
  have ok: "fst (populate d c e target) = None \<longrightarrow>
      metadata (fst (snd (populate d c e target))) = md
      \<and> suffix (fst (snd (populate d c e target))) = sfx
      \<and> snd (snd (populate d c e target)) = c"
    by (simp add: unfold)
  show ?thesis
    using counter gauge hist le sum count quantile badsfx badtype ok by simp
qed

theorem populate_classification_witness:
  "classifiedAs firstPopulate MetricDescriptor_CUMULATIVE MetricDescriptor_DOUBLE
   \<and> classifiedAs (populate exampleDecls exampleCache (newEntry bucketLabels) richTarget)
       MetricDescriptor_CUMULATIVE MetricDescriptor_DISTRIBUTION
   \<and> protoLabels (populate exampleDecls exampleCache (newEntry bucketLabels) richTarget)
       = [(''method'', ''GET'')]
   \<and> populate exampleDecls exampleCache (newEntry infoLabels) richTarget
       = (Some (UnexpectedMetricType ''info''), newEntry infoLabels, exampleCache)"
proof -
  have l: "lset (newEntry exampleLabels :: real seriesCacheEntry) = exampleLabels"
    "lset (newEntry bucketLabels :: real seriesCacheEntry) = bucketLabels"
    "lset (newEntry infoLabels :: real seriesCacheEntry) = infoLabels"
    by (simp_all add: newEntry_def)
  have cap:
    "length (removeLabel ''__name__'' [\<lparr>Name = ''__name__'', Value = ''http_requests_total''\<rparr>])
       \<le> maxLabelCount exampleDecls"
    "length (removeLabel ''__name__''
               [\<lparr>Name = ''__name__'', Value = ''rpc_latency_bucket''\<rparr>,
                \<lparr>Name = ''le'', Value = ''0.5''\<rparr>, \<lparr>Name = ''method'', Value = ''GET''\<rparr>])
       \<le> maxLabelCount exampleDecls"
    "length (removeLabel ''__name__'' [\<lparr>Name = ''__name__'', Value = ''build_info''\<rparr>])
       \<le> maxLabelCount exampleDecls"
    by (simp_all add: exampleDecls_def)
  have other: "MetricTypeInfo \<notin> {MetricTypeCounter, MetricTypeGauge, MetricTypeUnknown,
                                  MetricTypeSummary, MetricTypeHistogram}"
    "MetricTypeInfo = ''info''"
    by (simp_all add: metric_type_defs MetricTypeInfo_def)
  have m: "labels_Map (removeLabel ''le'' (removeLabel ''__name__''
             [\<lparr>Name = ''__name__'', Value = ''rpc_latency_bucket''\<rparr>,
              \<lparr>Name = ''le'', Value = ''0.5''\<rparr>, \<lparr>Name = ''method'', Value = ''GET''\<rparr>]))
           = [(''method'', ''GET'')]"
    by (simp add: labels_Map_def)
  show ?thesis
    using populate_classification
            [of listedCache "newEntry exampleLabels", unfolded l,
             OF example_extract(1) cap(1) example_resolve(1)]
      populate_classification
            [of exampleCache "newEntry bucketLabels", unfolded l,
             OF example_extract(2) cap(2) example_resolve(2)]
      populate_classification
            [of exampleCache "newEntry infoLabels", unfolded l,
             OF example_extract(3) cap(3) example_resolve(3)]
      other m
    by (simp add: firstPopulate_def)
qed

end
